theory Spec2Isabelle
  imports Main "HOL-Library.Sublist"
begin

section \<open>Identity provider configuration (package idp)\<close>

text \<open>
  A shallow embedding of \<^verbatim>\<open>src/idp/idp.go\<close>. Go strings are byte sequences and are
  modelled as \<^typ>\<open>string\<close>; the empty Go string is \<open>[]\<close>.
\<close>

subsection \<open>Discriminants\<close>

definition UbuntuSSO :: string where
  "UbuntuSSO = ''usso''"

definition UbuntuSSOOAuth :: string where
  "UbuntuSSOOAuth = ''usso_oauth''"

definition Agent :: string where
  "Agent = ''agent''"

definition Keystone :: string where
  "Keystone = ''keystone''"

definition KeystoneUserpass :: string where
  "KeystoneUserpass = ''keystone_userpass''"

definition KeystoneToken :: string where
  "KeystoneToken = ''keystone_token''"

subsection \<open>Data\<close>

text \<open>
  \<^verbatim>\<open>type KeystoneParams struct { Name, Domain, Description, URL string }\<close>.
  The field \<^verbatim>\<open>Domain\<close> is written \<open>Domain'\<close>, since \<open>Domain\<close> is the domain of a
  relation in HOL.
\<close>

record KeystoneParams =
  Name :: string
  Domain' :: string
  Description :: string
  URL :: string

text \<open>
  \<^verbatim>\<open>type IdentityProvider struct { Type string; Config interface{} }\<close>.
  The only values this package stores in \<^verbatim>\<open>Config\<close> are the nil interface and a
  pointer to a \<^verbatim>\<open>KeystoneParams\<close>; \<open>None\<close> is nil and \<open>Some p\<close> is a pointer to
  a struct whose contents are \<open>p\<close>.
\<close>

record IdentityProvider =
  Type :: string
  Config :: "KeystoneParams option"

subsection \<open>Errors\<close>

text \<open>
  The package builds its errors with three functions of the library \<^verbatim>\<open>errgo\<close>, which
  is not part of the package. Each call is kept as a constructor applied to the arguments
  the source passes: \<^verbatim>\<open>errgo.Newf(format, args...)\<close> makes a new error from a format and
  its arguments, \<^verbatim>\<open>errgo.Notef(err, format, args...)\<close> wraps \<^verbatim>\<open>err\<close> with a message,
  and \<^verbatim>\<open>errgo.Mask(err)\<close> wraps \<^verbatim>\<open>err\<close> without a message. \<open>Foreign c\<close> is an
  error value \<open>c\<close> made elsewhere, such as the failure the decoder of the record reports.
\<close>

datatype 'c error =
    Foreign 'c
  | Newf string "string list"
  | Notef "'c error" string "string list"
  | Mask "'c error"







fun Underlying :: "'c error \<Rightarrow> 'c error option" where
  "Underlying (Notef err f a) = Some err"
| "Underlying (Mask err) = Some err"
| "Underlying (Newf f a) = None"
| "Underlying (Foreign c) = None"

fun Err_Cause :: "'c error \<Rightarrow> 'c error option" where
  "Err_Cause (Newf f a) = None"
| "Err_Cause (Notef err f a) = None"
| "Err_Cause (Mask err) = None"
| "Err_Cause (Foreign c) = None"

definition Cause :: "'c error \<Rightarrow> 'c error" where
  "Cause err = (case Err_Cause err of Some diag \<Rightarrow> diag | None \<Rightarrow> err)"

subsection \<open>The unmarshal callback\<close>

text \<open>
  \<^verbatim>\<open>UnmarshalYAML\<close> receives \<^verbatim>\<open>unmarshal func(interface{}) error\<close>, which decodes the
  record being read into the value its argument points to. The package calls it with two
  targets: a pointer to \<^verbatim>\<open>struct { Type string }\<close>, whose only field stands for the
  struct, and a pointer to a \<^verbatim>\<open>KeystoneParams\<close>. A call takes the target's contents
  before the call and returns either the error or the contents after it. The callback is
  a parameter of the embedding: nothing is assumed about what it returns.
\<close>

record 'c unmarshal =
  unmarshal_Type :: "string \<Rightarrow> 'c error + string"
  unmarshal_KeystoneParams :: "KeystoneParams \<Rightarrow> 'c error + KeystoneParams"

subsection \<open>Providers without configuration\<close>

text \<open>
  The three providers without a payload are package-level variables. Nothing in the
  package assigns to them after their initialisation, so they are constants here; a
  \<^verbatim>\<open>Config\<close> that the literal leaves out is nil.
\<close>

definition UbuntuSSOIdentityProvider :: IdentityProvider where
  "UbuntuSSOIdentityProvider = \<lparr>Type = UbuntuSSO, Config = None\<rparr>"

definition UbuntuSSOOAuthIdentityProvider :: IdentityProvider where
  "UbuntuSSOOAuthIdentityProvider = \<lparr>Type = UbuntuSSOOAuth, Config = None\<rparr>"

definition AgentIdentityProvider :: IdentityProvider where
  "AgentIdentityProvider = \<lparr>Type = Agent, Config = None\<rparr>"

subsection \<open>Keystone providers\<close>

definition newKeystoneIdentityProvider :: "string \<Rightarrow> KeystoneParams \<Rightarrow> IdentityProvider" where
  "newKeystoneIdentityProvider t p = \<lparr>Type = t, Config = Some p\<rparr>"

definition KeystoneIdentityProvider :: "KeystoneParams \<Rightarrow> IdentityProvider" where
  "KeystoneIdentityProvider p = newKeystoneIdentityProvider Keystone p"

definition KeystoneUserpassIdentityProvider :: "KeystoneParams \<Rightarrow> IdentityProvider" where
  "KeystoneUserpassIdentityProvider p = newKeystoneIdentityProvider KeystoneUserpass p"

definition KeystoneTokenIdentityProvider :: "KeystoneParams \<Rightarrow> IdentityProvider" where
  "KeystoneTokenIdentityProvider p = newKeystoneIdentityProvider KeystoneToken p"

subsection \<open>Decoding\<close>

text \<open>
  \<^verbatim>\<open>unmarshalKeystone\<close> returns a pair in Go, and its caller stores the first component
  whether or not the second is nil, so the model returns both. \<^verbatim>\<open>var p KeystoneParams\<close>
  is the struct of four empty strings, and \<^verbatim>\<open>IdentityProvider{}\<close> has the empty
  \<^verbatim>\<open>Type\<close> and the nil \<^verbatim>\<open>Config\<close>.
\<close>

definition unmarshalKeystone ::
  "string \<Rightarrow> 'c unmarshal \<Rightarrow> IdentityProvider \<times> 'c error option" where
  "unmarshalKeystone t unmarshal =
     (case unmarshal_KeystoneParams unmarshal
             \<lparr>Name = [], Domain' = [], Description = [], URL = []\<rparr> of
        Inl err \<Rightarrow> (\<lparr>Type = [], Config = None\<rparr>, Some (Mask err))
      | Inr p \<Rightarrow>
          if Name p = [] then
            (\<lparr>Type = [], Config = None\<rparr>, Some (Newf ''name not specified'' []))
          else if URL p = [] then
            (\<lparr>Type = [], Config = None\<rparr>, Some (Newf ''url not specified'' []))
          else (newKeystoneIdentityProvider t p, None))"

text \<open>
  \<^verbatim>\<open>UnmarshalYAML\<close> has a pointer receiver and returns an error: the model takes the
  receiver's value before the call and returns the error (\<open>None\<close> is nil) with the
  receiver's value after it.
\<close>

definition UnmarshalYAML ::
  "'c unmarshal \<Rightarrow> IdentityProvider \<Rightarrow> 'c error option \<times> IdentityProvider" where
  "UnmarshalYAML unmarshal idp =
     (case unmarshal_Type unmarshal [] of
        Inl err \<Rightarrow> (Some (Notef err ''cannot unmarshal identity provider type'' []), idp)
      | Inr t \<Rightarrow>
          if t = UbuntuSSO then (None, UbuntuSSOIdentityProvider)
          else if t = UbuntuSSOOAuth then (None, UbuntuSSOOAuthIdentityProvider)
          else if t = Agent then (None, AgentIdentityProvider)
          else if t = Keystone \<or> t = KeystoneUserpass \<or> t = KeystoneToken then
            (case unmarshalKeystone t unmarshal of
               (idp', Some err) \<Rightarrow>
                 (Some (Notef err ''cannot unmarshal keystone configuration'' []), idp')
             | (idp', None) \<Rightarrow> (None, idp'))
          else (Some (Newf ''unrecognised identity provider type %q'' [t]), idp))"

subsection \<open>Records\<close>

text \<open>
  Modelled from the spec: the primitive that decodes a record into a structure, which
  the configuration-loading layer supplies as the \<^verbatim>\<open>unmarshal\<close> callback (the YAML
  library; it is not under \<^verbatim>\<open>src/\<close>). A record maps field names to values, and the
  field names are \<^verbatim>\<open>type\<close>, \<^verbatim>\<open>name\<close>, \<^verbatim>\<open>domain\<close>, \<^verbatim>\<open>description\<close> and
  \<^verbatim>\<open>url\<close>. Decoding into a string field keeps the field's contents when the record
  has no such field, stores the text when the value is text, and fails with a type mismatch
  on that field when the value is not text (here a sequence). The properties below are
  stated for every callback; \<open>decode_record\<close> supplies the callbacks of concrete
  records.
\<close>

datatype field_value = Text string | Sequence "field_value list"

datatype decode_failure = TypeMismatch string

definition decode_field ::
  "(string \<times> field_value) list \<Rightarrow> string \<Rightarrow> string \<Rightarrow> decode_failure error + string" where
  "decode_field r k old =
     (case map_of r k of
        None \<Rightarrow> Inr old
      | Some (Text s) \<Rightarrow> Inr s
      | Some (Sequence vs) \<Rightarrow> Inl (Foreign (TypeMismatch k)))"

definition decode_KeystoneParams ::
  "(string \<times> field_value) list \<Rightarrow> KeystoneParams \<Rightarrow> decode_failure error + KeystoneParams" where
  "decode_KeystoneParams r p =
     (case decode_field r ''name'' (Name p) of
        Inl e \<Rightarrow> Inl e
      | Inr n \<Rightarrow>
         (case decode_field r ''domain'' (Domain' p) of
            Inl e \<Rightarrow> Inl e
          | Inr d \<Rightarrow>
             (case decode_field r ''description'' (Description p) of
                Inl e \<Rightarrow> Inl e
              | Inr ds \<Rightarrow>
                 (case decode_field r ''url'' (URL p) of
                    Inl e \<Rightarrow> Inl e
                  | Inr u \<Rightarrow> Inr \<lparr>Name = n, Domain' = d, Description = ds, URL = u\<rparr>))))"

definition decode_record :: "(string \<times> field_value) list \<Rightarrow> decode_failure unmarshal" where
  "decode_record r =
     \<lparr>unmarshal_Type = decode_field r ''type'',
      unmarshal_KeystoneParams = decode_KeystoneParams r\<rparr>"

section \<open>Properties\<close>

lemmas discriminant_defs =
  UbuntuSSO_def UbuntuSSOOAuth_def Agent_def Keystone_def KeystoneUserpass_def KeystoneToken_def

lemmas singleton_defs =
  UbuntuSSOIdentityProvider_def UbuntuSSOOAuthIdentityProvider_def AgentIdentityProvider_def

lemmas constructor_defs =
  KeystoneIdentityProvider_def KeystoneUserpassIdentityProvider_def
  KeystoneTokenIdentityProvider_def

lemmas decode_defs = decode_record_def decode_KeystoneParams_def decode_field_def

subsection \<open>The branches of the decoder\<close>

lemma UnmarshalYAML_Type_failure:
  "unmarshal_Type u [] = Inl e \<Longrightarrow>
   UnmarshalYAML u idp = (Some (Notef e ''cannot unmarshal identity provider type'' []), idp)"
  by (simp add: UnmarshalYAML_def)

lemma UnmarshalYAML_default:
  "unmarshal_Type u [] = Inr t \<Longrightarrow>
   t \<notin> {UbuntuSSO, UbuntuSSOOAuth, Agent, Keystone, KeystoneUserpass, KeystoneToken} \<Longrightarrow>
   UnmarshalYAML u idp = (Some (Newf ''unrecognised identity provider type %q'' [t]), idp)"
  by (simp add: UnmarshalYAML_def)

lemma keystone_family_not_singleton:
  "d \<in> {Keystone, KeystoneUserpass, KeystoneToken} \<Longrightarrow>
   d \<noteq> UbuntuSSO \<and> d \<noteq> UbuntuSSOOAuth \<and> d \<noteq> Agent"
  by (auto simp: discriminant_defs)

lemma UnmarshalYAML_keystone:
  "unmarshal_Type u [] = Inr d \<Longrightarrow> d \<in> {Keystone, KeystoneUserpass, KeystoneToken} \<Longrightarrow>
   UnmarshalYAML u idp =
     (case unmarshalKeystone d u of
        (idp', Some err) \<Rightarrow>
          (Some (Notef err ''cannot unmarshal keystone configuration'' []), idp')
      | (idp', None) \<Rightarrow> (None, idp'))"
  using keystone_family_not_singleton [of d] by (auto simp: UnmarshalYAML_def)

lemma unmarshalKeystone_failure:
  "unmarshal_KeystoneParams u \<lparr>Name = [], Domain' = [], Description = [], URL = []\<rparr> = Inl e \<Longrightarrow>
   unmarshalKeystone t u = (\<lparr>Type = [], Config = None\<rparr>, Some (Mask e))"
  by (simp add: unmarshalKeystone_def)

lemma unmarshalKeystone_no_name:
  "unmarshal_KeystoneParams u \<lparr>Name = [], Domain' = [], Description = [], URL = []\<rparr> = Inr p \<Longrightarrow>
   Name p = [] \<Longrightarrow>
   unmarshalKeystone t u = (\<lparr>Type = [], Config = None\<rparr>, Some (Newf ''name not specified'' []))"
  by (simp add: unmarshalKeystone_def)

lemma unmarshalKeystone_no_url:
  "unmarshal_KeystoneParams u \<lparr>Name = [], Domain' = [], Description = [], URL = []\<rparr> = Inr p \<Longrightarrow>
   Name p \<noteq> [] \<Longrightarrow> URL p = [] \<Longrightarrow>
   unmarshalKeystone t u = (\<lparr>Type = [], Config = None\<rparr>, Some (Newf ''url not specified'' []))"
  by (simp add: unmarshalKeystone_def)

lemma unmarshalKeystone_valid:
  "unmarshal_KeystoneParams u \<lparr>Name = [], Domain' = [], Description = [], URL = []\<rparr> = Inr p \<Longrightarrow>
   Name p \<noteq> [] \<Longrightarrow> URL p \<noteq> [] \<Longrightarrow>
   unmarshalKeystone t u = (\<lparr>Type = t, Config = Some p\<rparr>, None)"
  by (simp add: unmarshalKeystone_def newKeystoneIdentityProvider_def)

subsection \<open>Formatting and causes\<close>




lemma Notef_neq_underlying: "Notef e f a \<noteq> e"
  by (induction e) auto

lemma Notef_Mask_neq_underlying: "Notef (Mask e) f a \<noteq> e"
  by (induction e) auto

subsection \<open>Successful decoding\<close>

text \<open>
  C1. For every record whose \<^verbatim>\<open>type\<close> is one of the six recognized discriminants and
  that meets the requirements of its variant (none for \<open>usso\<close>, \<open>usso_oauth\<close> and
  \<open>agent\<close>; for the keystone family, the payload decodes with a non-empty name and a
  non-empty url), decoding returns no error and leaves in the receiver a provider whose
  \<open>Type\<close> is the record's discriminant.
\<close>

theorem recognized_type_decodes:
  assumes "unmarshal_Type u [] = Inr d"
    and "d \<in> {UbuntuSSO, UbuntuSSOOAuth, Agent}
         \<or> d \<in> {Keystone, KeystoneUserpass, KeystoneToken}
           \<and> unmarshal_KeystoneParams u \<lparr>Name = [], Domain' = [], Description = [], URL = []\<rparr> = Inr p
           \<and> Name p \<noteq> [] \<and> URL p \<noteq> []"
  shows "fst (UnmarshalYAML u idp) = None \<and> Type (snd (UnmarshalYAML u idp)) = d"
proof -
  from assms(2) consider
      (singleton) "d \<in> {UbuntuSSO, UbuntuSSOOAuth, Agent}"
    | (keystone) "d \<in> {Keystone, KeystoneUserpass, KeystoneToken}"
        "unmarshal_KeystoneParams u \<lparr>Name = [], Domain' = [], Description = [], URL = []\<rparr> = Inr p"
        "Name p \<noteq> []" "URL p \<noteq> []"
    by blast
  then show ?thesis
  proof cases
    case singleton
    with assms(1) show ?thesis
      by (auto simp: UnmarshalYAML_def singleton_defs discriminant_defs)
  next
    case keystone
    then show ?thesis
      using UnmarshalYAML_keystone [OF assms(1), of idp] unmarshalKeystone_valid [of u p d]
      by simp
  qed
qed

theorem recognized_type_decodes_witness:
  "fst (UnmarshalYAML (decode_record [(''type'', Text ''agent'')]) \<lparr>Type = [], Config = None\<rparr>) = None
   \<and> Type (snd (UnmarshalYAML (decode_record [(''type'', Text ''agent'')])
                  \<lparr>Type = [], Config = None\<rparr>)) = ''agent''
   \<and> fst (UnmarshalYAML
            (decode_record [(''type'', Text ''keystone_userpass''), (''name'', Text ''idm''),
                            (''url'', Text ''https://example.test'')])
            \<lparr>Type = [], Config = None\<rparr>) = None
   \<and> Type (snd (UnmarshalYAML
                  (decode_record [(''type'', Text ''keystone_userpass''), (''name'', Text ''idm''),
                                  (''url'', Text ''https://example.test'')])
                  \<lparr>Type = [], Config = None\<rparr>)) = ''keystone_userpass''"
  using recognized_type_decodes [of "decode_record [(''type'', Text ''agent'')]" "''agent''"
      "\<lparr>Name = [], Domain' = [], Description = [], URL = []\<rparr>" "\<lparr>Type = [], Config = None\<rparr>"]
    recognized_type_decodes [of
      "decode_record [(''type'', Text ''keystone_userpass''), (''name'', Text ''idm''),
                      (''url'', Text ''https://example.test'')]"
      "''keystone_userpass''"
      "\<lparr>Name = ''idm'', Domain' = [], Description = [], URL = ''https://example.test''\<rparr>"
      "\<lparr>Type = [], Config = None\<rparr>"]
  by (simp add: decode_defs discriminant_defs)

text \<open>
  C4. Decoding the record with \<^verbatim>\<open>type: keystone\<close>, \<^verbatim>\<open>name: idm\<close>,
  \<^verbatim>\<open>url: https://example.test\<close> and no other field, so that the callback stores the
  name and the url in its target and nothing else, returns no error, and the payload of
  the provider has \<open>Name = idm\<close>, \<open>URL = https://example.test\<close>, and the empty
  \<open>Domain\<close> and \<open>Description\<close>.
\<close>

theorem keystone_idm_example:
  assumes "unmarshal_Type u [] = Inr ''keystone''"
    and "unmarshal_KeystoneParams u =
           (\<lambda>target. Inr (target\<lparr>Name := ''idm'', URL := ''https://example.test''\<rparr>))"
  shows "UnmarshalYAML u idp =
           (None, \<lparr>Type = ''keystone'',
                   Config = Some \<lparr>Name = ''idm'', Domain' = [], Description = [],
                                   URL = ''https://example.test''\<rparr>\<rparr>)"
  using UnmarshalYAML_keystone [of u "''keystone''" idp]
    unmarshalKeystone_valid [of u
      "\<lparr>Name = ''idm'', Domain' = [], Description = [], URL = ''https://example.test''\<rparr>"
      "''keystone''"]
    assms
  by (simp add: Keystone_def)

theorem keystone_idm_example_witness:
  "UnmarshalYAML (decode_record [(''type'', Text ''keystone''), (''name'', Text ''idm''),
                                 (''url'', Text ''https://example.test'')])
       \<lparr>Type = [], Config = None\<rparr> =
     (None, \<lparr>Type = ''keystone'',
             Config = Some \<lparr>Name = ''idm'', Domain' = [], Description = [],
                             URL = ''https://example.test''\<rparr>\<rparr>)"
  using keystone_idm_example [of
      "decode_record [(''type'', Text ''keystone''), (''name'', Text ''idm''),
                      (''url'', Text ''https://example.test'')]"
      "\<lparr>Type = [], Config = None\<rparr>"]
  by (simp add: decode_defs fun_eq_iff)

text \<open>
  C5. Any two decodes of records with the same discriminant among \<open>usso\<close>,
  \<open>usso_oauth\<close> and \<open>agent\<close> give equal results, whatever the receivers held and
  whatever else the records contain: no error, and the provider with that discriminant
  and no payload.
\<close>

theorem singleton_decodes_equal:
  assumes "d \<in> {UbuntuSSO, UbuntuSSOOAuth, Agent}"
    and "unmarshal_Type u1 [] = Inr d"
    and "unmarshal_Type u2 [] = Inr d"
  shows "UnmarshalYAML u1 idp1 = UnmarshalYAML u2 idp2
       \<and> UnmarshalYAML u1 idp1 = (None, \<lparr>Type = d, Config = None\<rparr>)"
  using assms by (auto simp: UnmarshalYAML_def singleton_defs discriminant_defs)

theorem singleton_decodes_equal_witness:
  "UnmarshalYAML (decode_record [(''type'', Text ''usso_oauth'')]) \<lparr>Type = [], Config = None\<rparr> =
     UnmarshalYAML (decode_record [(''name'', Text ''idm''), (''type'', Text ''usso_oauth'')])
       AgentIdentityProvider
   \<and> UnmarshalYAML (decode_record [(''type'', Text ''usso_oauth'')]) \<lparr>Type = [], Config = None\<rparr> =
       (None, \<lparr>Type = ''usso_oauth'', Config = None\<rparr>)"
  using singleton_decodes_equal [of "''usso_oauth''" "decode_record [(''type'', Text ''usso_oauth'')]"
      "decode_record [(''name'', Text ''idm''), (''type'', Text ''usso_oauth'')]"
      "\<lparr>Type = [], Config = None\<rparr>" AgentIdentityProvider]
  by (auto simp: decode_defs discriminant_defs)

subsection \<open>Missing fields\<close>

text \<open>
  C2, as the code has it. For every record with a keystone-family discriminant whose
  payload decodes: when the name is absent or empty, decoding fails with the error made
  from \<open>name not specified\<close>; when the name is not empty and the url is absent or
  empty, it fails with the error made from \<open>url not specified\<close>; in both cases an
  error is returned and the receiver holds no payload, so nothing stands in for the
  missing field.
\<close>

theorem keystone_missing_field:
  assumes "d \<in> {Keystone, KeystoneUserpass, KeystoneToken}"
    and "unmarshal_Type u [] = Inr d"
    and "unmarshal_KeystoneParams u \<lparr>Name = [], Domain' = [], Description = [], URL = []\<rparr> = Inr p"
  shows "(Name p = [] \<longrightarrow>
            fst (UnmarshalYAML u idp) =
              Some (Notef (Newf ''name not specified'' []) ''cannot unmarshal keystone configuration'' []))
       \<and> (Name p \<noteq> [] \<and> URL p = [] \<longrightarrow>
            fst (UnmarshalYAML u idp) =
              Some (Notef (Newf ''url not specified'' []) ''cannot unmarshal keystone configuration'' []))
       \<and> (Name p = [] \<or> URL p = [] \<longrightarrow>
            fst (UnmarshalYAML u idp) \<noteq> None \<and> Config (snd (UnmarshalYAML u idp)) = None)"
proof -
  note k = UnmarshalYAML_keystone [OF assms(2) assms(1), of idp]
  have name: "fst (UnmarshalYAML u idp) =
      Some (Notef (Newf ''name not specified'' []) ''cannot unmarshal keystone configuration'' [])
      \<and> Config (snd (UnmarshalYAML u idp)) = None" if "Name p = []"
    using k unmarshalKeystone_no_name [OF assms(3) that, of d] by simp
  have url: "fst (UnmarshalYAML u idp) =
      Some (Notef (Newf ''url not specified'' []) ''cannot unmarshal keystone configuration'' [])
      \<and> Config (snd (UnmarshalYAML u idp)) = None" if "Name p \<noteq> []" "URL p = []"
    using k unmarshalKeystone_no_url [OF assms(3) that, of d] by simp
  show ?thesis
    using name url by (cases "Name p = []") auto
qed

theorem keystone_missing_field_witness:
  "fst (UnmarshalYAML (decode_record [(''type'', Text ''keystone''), (''url'', Text ''https://example.test'')])
          \<lparr>Type = ''agent'', Config = None\<rparr>) =
     Some (Notef (Newf ''name not specified'' []) ''cannot unmarshal keystone configuration'' [])
   \<and> fst (UnmarshalYAML (decode_record [(''type'', Text ''keystone''), (''name'', Text ''idm'')])
          \<lparr>Type = ''agent'', Config = None\<rparr>) =
     Some (Notef (Newf ''url not specified'' []) ''cannot unmarshal keystone configuration'' [])
   \<and> Config (snd (UnmarshalYAML (decode_record [(''type'', Text ''keystone''), (''name'', Text ''idm'')])
          \<lparr>Type = ''agent'', Config = None\<rparr>)) = None"
  using keystone_missing_field [of "''keystone''"
      "decode_record [(''type'', Text ''keystone''), (''url'', Text ''https://example.test'')]"
      "\<lparr>Name = [], Domain' = [], Description = [], URL = ''https://example.test''\<rparr>"
      "\<lparr>Type = ''agent'', Config = None\<rparr>"]
    keystone_missing_field [of "''keystone''"
      "decode_record [(''type'', Text ''keystone''), (''name'', Text ''idm'')]"
      "\<lparr>Name = ''idm'', Domain' = [], Description = [], URL = []\<rparr>"
      "\<lparr>Type = ''agent'', Config = None\<rparr>"]
  by (simp add: decode_defs discriminant_defs)

text \<open>
  C2, as stated, asks for the error naming \<open>url\<close> whenever the url is absent or empty.
  The record that has \<^verbatim>\<open>type: keystone\<close> and no other field has no url (and no
  name): its payload decodes with an empty \<open>URL\<close>, and the error returned is not
  the one made from \<open>url not specified\<close>.
\<close>

theorem url_error_not_reported_when_name_also_missing:
  "unmarshal_Type (decode_record [(''type'', Text ''keystone'')]) [] = Inr ''keystone''
   \<and> unmarshal_KeystoneParams (decode_record [(''type'', Text ''keystone'')])
        \<lparr>Name = [], Domain' = [], Description = [], URL = []\<rparr> =
       Inr \<lparr>Name = [], Domain' = [], Description = [], URL = []\<rparr>
   \<and> fst (UnmarshalYAML (decode_record [(''type'', Text ''keystone'')]) \<lparr>Type = [], Config = None\<rparr>) =
       Some (Notef (Newf ''name not specified'' []) ''cannot unmarshal keystone configuration'' [])
   \<and> fst (UnmarshalYAML (decode_record [(''type'', Text ''keystone'')]) \<lparr>Type = [], Config = None\<rparr>) \<noteq>
       Some (Notef (Newf ''url not specified'' []) ''cannot unmarshal keystone configuration'' [])"
  by (simp add: decode_defs UnmarshalYAML_def unmarshalKeystone_def discriminant_defs)

text \<open>
  C10, as the code has it. The name is checked before the url: for every keystone-family
  record whose payload decodes with both the name and the url absent or empty, the error
  is the one made from \<open>name not specified\<close>, and not the one made from
  \<open>url not specified\<close>.
\<close>

theorem name_checked_before_url:
  assumes "d \<in> {Keystone, KeystoneUserpass, KeystoneToken}"
    and "unmarshal_Type u [] = Inr d"
    and "unmarshal_KeystoneParams u \<lparr>Name = [], Domain' = [], Description = [], URL = []\<rparr> = Inr p"
    and "Name p = []"
    and "URL p = []"
  shows "unmarshalKeystone d u = (\<lparr>Type = [], Config = None\<rparr>, Some (Newf ''name not specified'' []))
       \<and> fst (UnmarshalYAML u idp) =
           Some (Notef (Newf ''name not specified'' []) ''cannot unmarshal keystone configuration'' [])
       \<and> fst (UnmarshalYAML u idp) \<noteq>
           Some (Notef (Newf ''url not specified'' []) ''cannot unmarshal keystone configuration'' [])"
  using UnmarshalYAML_keystone [OF assms(2) assms(1), of idp]
    unmarshalKeystone_no_name [OF assms(3) assms(4), of d]
  by simp

theorem name_checked_before_url_witness:
  "fst (UnmarshalYAML (decode_record [(''type'', Text ''keystone_userpass''), (''name'', Text []),
                                      (''description'', Text ''no name, no url'')])
          UbuntuSSOIdentityProvider) =
     Some (Notef (Newf ''name not specified'' []) ''cannot unmarshal keystone configuration'' [])"
  using name_checked_before_url [of "''keystone_userpass''"
      "decode_record [(''type'', Text ''keystone_userpass''), (''name'', Text []),
                      (''description'', Text ''no name, no url'')]"
      "\<lparr>Name = [], Domain' = [], Description = ''no name, no url'', URL = []\<rparr>"
      UbuntuSSOIdentityProvider]
  by (simp add: decode_defs discriminant_defs)

text \<open>
  C10, as stated, speaks of every keystone-family record that has neither name nor url.
  The record with \<^verbatim>\<open>type: keystone\<close> and a \<^verbatim>\<open>domain\<close> that is a sequence has
  neither, but its payload does not decode: the callback's failure is returned, wrapped,
  before the name is looked at, and the error is not the one made from
  \<open>name not specified\<close>.
\<close>

theorem structural_failure_precedes_name_check:
  "map_of [(''type'', Text ''keystone''), (''domain'', Sequence [])] ''name'' = None
   \<and> map_of [(''type'', Text ''keystone''), (''domain'', Sequence [])] ''url'' = None
   \<and> unmarshal_Type (decode_record [(''type'', Text ''keystone''), (''domain'', Sequence [])]) [] =
       Inr ''keystone''
   \<and> fst (UnmarshalYAML (decode_record [(''type'', Text ''keystone''), (''domain'', Sequence [])])
            \<lparr>Type = [], Config = None\<rparr>) =
       Some (Notef (Mask (Foreign (TypeMismatch ''domain'')))
               ''cannot unmarshal keystone configuration'' [])
   \<and> fst (UnmarshalYAML (decode_record [(''type'', Text ''keystone''), (''domain'', Sequence [])])
            \<lparr>Type = [], Config = None\<rparr>) \<noteq>
       Some (Notef (Newf ''name not specified'' []) ''cannot unmarshal keystone configuration'' [])"
  by (simp add: decode_defs UnmarshalYAML_def unmarshalKeystone_def discriminant_defs)

subsection \<open>Unrecognised discriminants\<close>




subsection \<open>Failures of the callback\<close>

text \<open>
  C7, as the code has it. When the callback fails, its error is wrapped and returned, and
  no provider is decoded. If it fails on the \<^verbatim>\<open>type\<close> field with \<open>e\<close>, the result
  is \<open>e\<close> wrapped by \<^verbatim>\<open>Notef\<close>, and the receiver is unchanged. If the discriminant
  is of the keystone family and the callback fails on the payload with \<open>e\<close>, the
  result is \<open>e\<close> wrapped by \<^verbatim>\<open>Mask\<close> and then by \<^verbatim>\<open>Notef\<close>, and the receiver
  has no discriminant and no payload. In both cases \<open>e\<close> is kept as the underlying
  error of the result (of its underlying error, in the second case), and not as its
  cause: the cause of the result is the result itself.
\<close>

theorem decode_failure_is_wrapped:
  "(unmarshal_Type u [] = Inl e \<longrightarrow>
      UnmarshalYAML u idp = (Some (Notef e ''cannot unmarshal identity provider type'' []), idp)
      \<and> map_option Underlying (fst (UnmarshalYAML u idp)) = Some (Some e)
      \<and> map_option Cause (fst (UnmarshalYAML u idp)) = fst (UnmarshalYAML u idp)
      \<and> map_option Cause (fst (UnmarshalYAML u idp)) \<noteq> Some e)
   \<and> (unmarshal_Type u [] = Inr d \<and> d \<in> {Keystone, KeystoneUserpass, KeystoneToken}
        \<and> unmarshal_KeystoneParams u \<lparr>Name = [], Domain' = [], Description = [], URL = []\<rparr> = Inl e \<longrightarrow>
      UnmarshalYAML u idp =
        (Some (Notef (Mask e) ''cannot unmarshal keystone configuration'' []),
         \<lparr>Type = [], Config = None\<rparr>)
      \<and> Option.bind (Option.bind (fst (UnmarshalYAML u idp)) Underlying) Underlying = Some e
      \<and> map_option Cause (fst (UnmarshalYAML u idp)) = fst (UnmarshalYAML u idp)
      \<and> map_option Cause (fst (UnmarshalYAML u idp)) \<noteq> Some e)"
proof (intro conjI impI)
  assume a: "unmarshal_Type u [] = Inl e"
  note r = UnmarshalYAML_Type_failure [OF a, of idp]
  show "UnmarshalYAML u idp =
      (Some (Notef e ''cannot unmarshal identity provider type'' []), idp)"
    by (rule r)
  show "map_option Underlying (fst (UnmarshalYAML u idp)) = Some (Some e)"
    by (simp add: r)
  show "map_option Cause (fst (UnmarshalYAML u idp)) = fst (UnmarshalYAML u idp)"
    by (simp add: r Cause_def)
  show "map_option Cause (fst (UnmarshalYAML u idp)) \<noteq> Some e"
    by (simp add: r Cause_def Notef_neq_underlying)
next
  assume a: "unmarshal_Type u [] = Inr d \<and> d \<in> {Keystone, KeystoneUserpass, KeystoneToken}
        \<and> unmarshal_KeystoneParams u \<lparr>Name = [], Domain' = [], Description = [], URL = []\<rparr> = Inl e"
  then have r: "UnmarshalYAML u idp =
      (Some (Notef (Mask e) ''cannot unmarshal keystone configuration'' []),
       \<lparr>Type = [], Config = None\<rparr>)"
    using UnmarshalYAML_keystone [of u d idp] unmarshalKeystone_failure [of u e d] by simp
  show "UnmarshalYAML u idp =
      (Some (Notef (Mask e) ''cannot unmarshal keystone configuration'' []),
       \<lparr>Type = [], Config = None\<rparr>)"
    by (rule r)
  show "Option.bind (Option.bind (fst (UnmarshalYAML u idp)) Underlying) Underlying = Some e"
    by (simp add: r)
  show "map_option Cause (fst (UnmarshalYAML u idp)) = fst (UnmarshalYAML u idp)"
    by (simp add: r Cause_def)
  show "map_option Cause (fst (UnmarshalYAML u idp)) \<noteq> Some e"
    by (simp add: r Cause_def Notef_Mask_neq_underlying)
qed

theorem decode_failure_is_wrapped_witness:
  "UnmarshalYAML (decode_record [(''type'', Sequence [])]) AgentIdentityProvider =
     (Some (Notef (Foreign (TypeMismatch ''type'')) ''cannot unmarshal identity provider type'' []),
      AgentIdentityProvider)
   \<and> map_option Underlying
        (fst (UnmarshalYAML (decode_record [(''type'', Sequence [])]) AgentIdentityProvider)) =
       Some (Some (Foreign (TypeMismatch ''type'')))
   \<and> UnmarshalYAML (decode_record [(''type'', Text ''keystone_token''), (''name'', Text ''idm''),
                                   (''url'', Sequence [Text ''a'', Text ''b''])])
        AgentIdentityProvider =
       (Some (Notef (Mask (Foreign (TypeMismatch ''url''))) ''cannot unmarshal keystone configuration'' []),
        \<lparr>Type = [], Config = None\<rparr>)"
  using decode_failure_is_wrapped [of "decode_record [(''type'', Sequence [])]"
      "Foreign (TypeMismatch ''type'')" AgentIdentityProvider "''keystone_token''"]
    decode_failure_is_wrapped [of
      "decode_record [(''type'', Text ''keystone_token''), (''name'', Text ''idm''),
                      (''url'', Sequence [Text ''a'', Text ''b''])]"
      "Foreign (TypeMismatch ''url'')" AgentIdentityProvider "''keystone_token''"]
  by (simp add: decode_defs discriminant_defs)

text \<open>
  C7, as stated, asks that the returned error keep the original failure as its cause.
  For the record whose \<^verbatim>\<open>type\<close> is a sequence, the callback fails with a type
  mismatch, and the cause of the returned error is the returned error, not that failure.
\<close>

theorem cause_is_not_the_decode_failure:
  "unmarshal_Type (decode_record [(''type'', Sequence [])]) [] = Inl (Foreign (TypeMismatch ''type''))
   \<and> map_option Cause
        (fst (UnmarshalYAML (decode_record [(''type'', Sequence [])]) \<lparr>Type = [], Config = None\<rparr>)) =
       Some (Notef (Foreign (TypeMismatch ''type'')) ''cannot unmarshal identity provider type'' [])
   \<and> map_option Cause
        (fst (UnmarshalYAML (decode_record [(''type'', Sequence [])]) \<lparr>Type = [], Config = None\<rparr>)) \<noteq>
       Some (Foreign (TypeMismatch ''type''))"
  by (simp add: decode_defs UnmarshalYAML_def Cause_def)

subsection \<open>The receiver after an error\<close>

text \<open>
  C8. An error does not always leave the receiver as it was. When a keystone-family
  record fails, because the callback fails on the payload or because the name or the url
  is empty, an error is returned and the receiver is overwritten with the provider that
  has the empty \<open>Type\<close> and no \<open>Config\<close>. When the discriminant is unrecognised, or
  the callback fails on the \<^verbatim>\<open>type\<close> field, an error is returned and the receiver is
  unchanged.
\<close>

theorem receiver_after_error:
  "(unmarshal_Type u [] = Inr d \<and> d \<in> {Keystone, KeystoneUserpass, KeystoneToken}
      \<and> (unmarshal_KeystoneParams u \<lparr>Name = [], Domain' = [], Description = [], URL = []\<rparr> = Inl e
          \<or> unmarshal_KeystoneParams u \<lparr>Name = [], Domain' = [], Description = [], URL = []\<rparr> = Inr p
            \<and> (Name p = [] \<or> URL p = [])) \<longrightarrow>
      fst (UnmarshalYAML u idp) \<noteq> None
      \<and> snd (UnmarshalYAML u idp) = \<lparr>Type = [], Config = None\<rparr>)
   \<and> (unmarshal_Type u [] = Inr d
        \<and> d \<notin> {UbuntuSSO, UbuntuSSOOAuth, Agent, Keystone, KeystoneUserpass, KeystoneToken} \<longrightarrow>
      fst (UnmarshalYAML u idp) \<noteq> None \<and> snd (UnmarshalYAML u idp) = idp)
   \<and> (unmarshal_Type u [] = Inl e \<longrightarrow>
      fst (UnmarshalYAML u idp) \<noteq> None \<and> snd (UnmarshalYAML u idp) = idp)"
proof (intro conjI impI)
  assume a: "unmarshal_Type u [] = Inr d \<and> d \<in> {Keystone, KeystoneUserpass, KeystoneToken}
      \<and> (unmarshal_KeystoneParams u \<lparr>Name = [], Domain' = [], Description = [], URL = []\<rparr> = Inl e
          \<or> unmarshal_KeystoneParams u \<lparr>Name = [], Domain' = [], Description = [], URL = []\<rparr> = Inr p
            \<and> (Name p = [] \<or> URL p = []))"
  then have "\<exists>err. unmarshalKeystone d u = (\<lparr>Type = [], Config = None\<rparr>, Some err)"
    using unmarshalKeystone_failure [of u e d] unmarshalKeystone_no_name [of u p d]
      unmarshalKeystone_no_url [of u p d]
    by blast
  then obtain err where "unmarshalKeystone d u = (\<lparr>Type = [], Config = None\<rparr>, Some err)" ..
  with a have r: "UnmarshalYAML u idp =
      (Some (Notef err ''cannot unmarshal keystone configuration'' []), \<lparr>Type = [], Config = None\<rparr>)"
    using UnmarshalYAML_keystone [of u d idp] by simp
  show "fst (UnmarshalYAML u idp) \<noteq> None" by (simp add: r)
  show "snd (UnmarshalYAML u idp) = \<lparr>Type = [], Config = None\<rparr>" by (simp add: r)
next
  assume a: "unmarshal_Type u [] = Inr d
        \<and> d \<notin> {UbuntuSSO, UbuntuSSOOAuth, Agent, Keystone, KeystoneUserpass, KeystoneToken}"
  then have r: "UnmarshalYAML u idp = (Some (Newf ''unrecognised identity provider type %q'' [d]), idp)"
    using UnmarshalYAML_default [of u d idp] by blast
  show "fst (UnmarshalYAML u idp) \<noteq> None" by (simp add: r)
  show "snd (UnmarshalYAML u idp) = idp" by (simp add: r)
next
  assume a: "unmarshal_Type u [] = Inl e"
  show "fst (UnmarshalYAML u idp) \<noteq> None" by (simp add: UnmarshalYAML_Type_failure [OF a])
  show "snd (UnmarshalYAML u idp) = idp" by (simp add: UnmarshalYAML_Type_failure [OF a])
qed

theorem receiver_after_error_witness:
  "snd (UnmarshalYAML (decode_record [(''type'', Text ''keystone''), (''name'', Sequence [])])
          AgentIdentityProvider) = \<lparr>Type = [], Config = None\<rparr>
   \<and> snd (UnmarshalYAML (decode_record [(''type'', Text ''keystone''), (''name'', Text ''idm'')])
          AgentIdentityProvider) = \<lparr>Type = [], Config = None\<rparr>
   \<and> snd (UnmarshalYAML (decode_record [(''type'', Text ''bogus'')]) AgentIdentityProvider) =
       AgentIdentityProvider
   \<and> snd (UnmarshalYAML (decode_record [(''type'', Sequence [])]) AgentIdentityProvider) =
       AgentIdentityProvider
   \<and> AgentIdentityProvider \<noteq> \<lparr>Type = [], Config = None\<rparr>"
  using receiver_after_error [of
      "decode_record [(''type'', Text ''keystone''), (''name'', Sequence [])]"
      "''keystone''" "Foreign (TypeMismatch ''name'')"
      "\<lparr>Name = [], Domain' = [], Description = [], URL = []\<rparr>" AgentIdentityProvider]
    receiver_after_error [of
      "decode_record [(''type'', Text ''keystone''), (''name'', Text ''idm'')]"
      "''keystone''" "Foreign (TypeMismatch ''name'')"
      "\<lparr>Name = ''idm'', Domain' = [], Description = [], URL = []\<rparr>" AgentIdentityProvider]
    receiver_after_error [of "decode_record [(''type'', Text ''bogus'')]" "''bogus''"
      "Foreign (TypeMismatch ''type'')"
      "\<lparr>Name = [], Domain' = [], Description = [], URL = []\<rparr>" AgentIdentityProvider]
    receiver_after_error [of "decode_record [(''type'', Sequence [])]" "''bogus''"
      "Foreign (TypeMismatch ''type'')"
      "\<lparr>Name = [], Domain' = [], Description = [], URL = []\<rparr>" AgentIdentityProvider]
  by (simp add: decode_defs discriminant_defs singleton_defs)

subsection \<open>Constructors\<close>

text \<open>
  C6. For every \<open>KeystoneParams\<close> value \<open>p\<close>, the three constructors give providers
  with the same payload, namely \<open>p\<close>, whose discriminants are \<open>keystone\<close>,
  \<open>keystone_userpass\<close> and \<open>keystone_token\<close>, three different strings; each
  constructor is the shared builder applied to its discriminant and \<open>p\<close>.
\<close>

theorem keystone_constructors_differ_only_in_Type:
  "KeystoneIdentityProvider p = newKeystoneIdentityProvider Keystone p
   \<and> KeystoneUserpassIdentityProvider p = newKeystoneIdentityProvider KeystoneUserpass p
   \<and> KeystoneTokenIdentityProvider p = newKeystoneIdentityProvider KeystoneToken p
   \<and> Config (KeystoneIdentityProvider p) = Some p
   \<and> Config (KeystoneUserpassIdentityProvider p) = Some p
   \<and> Config (KeystoneTokenIdentityProvider p) = Some p
   \<and> Type (KeystoneIdentityProvider p) = ''keystone''
   \<and> Type (KeystoneUserpassIdentityProvider p) = ''keystone_userpass''
   \<and> Type (KeystoneTokenIdentityProvider p) = ''keystone_token''
   \<and> KeystoneUserpassIdentityProvider p = (KeystoneIdentityProvider p)\<lparr>Type := KeystoneUserpass\<rparr>
   \<and> KeystoneTokenIdentityProvider p = (KeystoneIdentityProvider p)\<lparr>Type := KeystoneToken\<rparr>"
  by (simp add: constructor_defs newKeystoneIdentityProvider_def discriminant_defs)

text \<open>
  C9. The constructors do not validate: for every \<open>KeystoneParams\<close> value \<open>p\<close>, and so
  for every one with an empty \<open>Name\<close> or an empty \<open>URL\<close>, each constructor returns
  the provider that carries \<open>p\<close>. Only decoding enforces the requirement: a
  keystone-family record whose payload decodes to a \<open>p\<close> with an empty \<open>Name\<close> or an
  empty \<open>URL\<close> gives an error and no payload.
\<close>

theorem constructors_do_not_validate:
  "KeystoneIdentityProvider p = \<lparr>Type = ''keystone'', Config = Some p\<rparr>
   \<and> KeystoneUserpassIdentityProvider p = \<lparr>Type = ''keystone_userpass'', Config = Some p\<rparr>
   \<and> KeystoneTokenIdentityProvider p = \<lparr>Type = ''keystone_token'', Config = Some p\<rparr>
   \<and> ((Name p = [] \<or> URL p = [])
        \<and> unmarshal_Type u [] = Inr d \<and> d \<in> {Keystone, KeystoneUserpass, KeystoneToken}
        \<and> unmarshal_KeystoneParams u \<lparr>Name = [], Domain' = [], Description = [], URL = []\<rparr> = Inr p \<longrightarrow>
      fst (UnmarshalYAML u idp) \<noteq> None \<and> Config (snd (UnmarshalYAML u idp)) = None)"
proof (intro conjI impI)
  assume a: "(Name p = [] \<or> URL p = [])
        \<and> unmarshal_Type u [] = Inr d \<and> d \<in> {Keystone, KeystoneUserpass, KeystoneToken}
        \<and> unmarshal_KeystoneParams u \<lparr>Name = [], Domain' = [], Description = [], URL = []\<rparr> = Inr p"
  then have "\<exists>err. unmarshalKeystone d u = (\<lparr>Type = [], Config = None\<rparr>, Some err)"
    using unmarshalKeystone_no_name [of u p d] unmarshalKeystone_no_url [of u p d] by blast
  then obtain err where "unmarshalKeystone d u = (\<lparr>Type = [], Config = None\<rparr>, Some err)" ..
  with a have r: "UnmarshalYAML u idp =
      (Some (Notef err ''cannot unmarshal keystone configuration'' []), \<lparr>Type = [], Config = None\<rparr>)"
    using UnmarshalYAML_keystone [of u d idp] by simp
  show "fst (UnmarshalYAML u idp) \<noteq> None" by (simp add: r)
  show "Config (snd (UnmarshalYAML u idp)) = None" by (simp add: r)
qed (simp_all add: constructor_defs newKeystoneIdentityProvider_def discriminant_defs)

theorem constructors_do_not_validate_witness:
  "Config (KeystoneIdentityProvider \<lparr>Name = [], Domain' = ''example'', Description = [], URL = []\<rparr>) =
     Some \<lparr>Name = [], Domain' = ''example'', Description = [], URL = []\<rparr>
   \<and> Config (KeystoneUserpassIdentityProvider
               \<lparr>Name = [], Domain' = ''example'', Description = [], URL = []\<rparr>) =
     Some \<lparr>Name = [], Domain' = ''example'', Description = [], URL = []\<rparr>
   \<and> Config (KeystoneTokenIdentityProvider
               \<lparr>Name = [], Domain' = ''example'', Description = [], URL = []\<rparr>) =
     Some \<lparr>Name = [], Domain' = ''example'', Description = [], URL = []\<rparr>
   \<and> fst (UnmarshalYAML (decode_record [(''type'', Text ''keystone''), (''domain'', Text ''example'')])
           \<lparr>Type = [], Config = None\<rparr>) \<noteq> None"
  using constructors_do_not_validate [of
      "\<lparr>Name = [], Domain' = ''example'', Description = [], URL = []\<rparr>"
      "decode_record [(''type'', Text ''keystone''), (''domain'', Text ''example'')]"
      "''keystone''" "\<lparr>Type = [], Config = None\<rparr>"]
  by (simp add: decode_defs discriminant_defs)

end
